theory Spec2Isabelle
  imports Complex_Main "HOL-Library.Sublist"
begin

section \<open>Python values used by the page objects\<close>

text \<open>
  The exceptions that the modelled functions raise or let through.  \<open>AssertionError\<close> is
  the failed \<^verbatim>\<open>assert\<close> of \<^verbatim>\<open>calculations\<close>, \<open>ValueError\<close> the failure of \<^verbatim>\<open>float(...)\<close>,
  \<open>AttributeError\<close> a \<^verbatim>\<open>.get\<close> on a value that is no dictionary, \<open>PlainException\<close> the
  \<^verbatim>\<open>raise Exception(...)\<close> of \<^verbatim>\<open>create_savings_account\<close>, and \<open>DriverError\<close> any
  exception of the browser driver (a timeout, a missing element), tagged by a message.
  All of them are subclasses of Python's \<^verbatim>\<open>Exception\<close>.
\<close>

datatype error =
    AssertionError
  | ValueError
  | AttributeError
  | OSError
  | PlainException
  | DriverError string

subsection \<open>Strings\<close>

text \<open>
  A Python \<^verbatim>\<open>str\<close> is a sequence of code points.  It is modelled as a \<^typ>\<open>string\<close> whose
  characters are read as the code points 0 to 255, so that \<^verbatim>\<open>'\xa0'\<close> is the one-character
  string \<open>[CHR 0xA0]\<close>.  The predicates below are Python's, restricted to that range.
\<close>

definition nbsp :: string where
  "nbsp = [CHR 0xA0]"

text \<open>\<^verbatim>\<open>c.isdigit()\<close> for one character: the ASCII digits and the superscripts
  \<^verbatim>\<open>'\xb2'\<close>, \<^verbatim>\<open>'\xb3'\<close>, \<^verbatim>\<open>'\xb9'\<close>.\<close>

definition digit_char :: "char \<Rightarrow> bool" where
  "digit_char c = (c \<in> set ''0123456789'' \<or> c \<in> set [CHR 0xB2, CHR 0xB3, CHR 0xB9])"

text \<open>\<^verbatim>\<open>s.isdigit()\<close>: at least one character, and every character a digit.\<close>

definition isdigit :: "string \<Rightarrow> bool" where
  "isdigit s = (s \<noteq> [] \<and> list_all digit_char s)"

text \<open>\<^verbatim>\<open>s.replace(c, '')\<close> for a one-character \<^verbatim>\<open>c\<close>.\<close>

definition remove_char :: "char \<Rightarrow> string \<Rightarrow> string" where
  "remove_char c s = filter (\<lambda>x. x \<noteq> c) s"

text \<open>\<^verbatim>\<open>sub in s\<close> for strings.\<close>

fun contains :: "string \<Rightarrow> string \<Rightarrow> bool" where
  "contains sub [] = (sub = [])"
| "contains sub (c # cs) = (prefix sub (c # cs) \<or> contains sub cs)"

text \<open>
  \<^verbatim>\<open>s.split(sep)\<close> for a non-empty separator: the text is scanned from the left, every
  occurrence of the separator that starts after the previous one has ended cuts the
  text.  \<open>acc\<close> holds the current piece, reversed.  (An empty separator raises in Python;
  the callers below pass the literal \<^verbatim>\<open>"id="\<close>.)
\<close>

function split_from :: "string \<Rightarrow> string \<Rightarrow> string \<Rightarrow> string list" where
  "split_from sep acc [] = [rev acc]"
| "split_from sep acc (c # cs) =
     (if sep \<noteq> [] \<and> prefix sep (c # cs)
      then rev acc # split_from sep [] (drop (length sep) (c # cs))
      else split_from sep (c # acc) cs)"
  by pat_completeness auto
termination
  by (relation "measure (\<lambda>(sep, acc, s). length s)") (auto simp: Suc_le_eq)

definition split :: "string \<Rightarrow> string \<Rightarrow> string list" where
  "split s sep = split_from sep [] s"

subsection \<open>The argument of \<^verbatim>\<open>float\<close>\<close>

text \<open>
  \<^verbatim>\<open>float(s)\<close> on a string first decides whether \<open>s\<close> is a float literal (else it raises
  \<^verbatim>\<open>ValueError\<close>) and then rounds the literal to a double.  The first step is syntax and is
  modelled here in full; the second is arithmetic and is a parameter of the model.

  CPython maps every code point from 127 on to a space (if it is white space, here
  \<^verbatim>\<open>'\x85'\<close> and \<^verbatim>\<open>'\xa0'\<close>), to its ASCII digit (if it is a decimal digit; there is none below
  256) or to \<^verbatim>\<open>'?'\<close>; strips ASCII white space from both ends; checks that every underscore
  stands between two digits and removes it; and then reads an optional sign followed by
  \<^verbatim>\<open>inf\<close>, \<^verbatim>\<open>infinity\<close> or \<^verbatim>\<open>nan\<close> in any case, or by a decimal number with an optional
  exponent.
\<close>

datatype float_lit =
    Decimal bool int int   \<comment> \<open>negative?, all digits read as one number, power of ten\<close>
  | Infinity bool
  | NaN

definition to_ascii :: "char \<Rightarrow> char" where
  "to_ascii c =
     (if (of_char c :: int) < 127 then c
      else if c = CHR 0x85 \<or> c = CHR 0xA0 then CHR '' ''
      else CHR ''?'')"

definition ascii_space :: "char \<Rightarrow> bool" where
  "ascii_space c = (c \<in> set [CHR '' '', CHR 0x09, CHR 0x0A, CHR 0x0B, CHR 0x0C, CHR 0x0D])"

definition strip :: "string \<Rightarrow> string" where
  "strip s = rev (dropWhile ascii_space (rev (dropWhile ascii_space s)))"

definition ascii_digit :: "char \<Rightarrow> bool" where
  "ascii_digit c = (c \<in> set ''0123456789'')"

text \<open>The underscore pass: \<open>prev\<close> is the character before, if any.\<close>

fun drop_underscores :: "char option \<Rightarrow> string \<Rightarrow> string option" where
  "drop_underscores prev [] = (if prev = Some CHR ''_'' then None else Some [])"
| "drop_underscores prev (c # cs) =
     (if c = CHR ''_''
      then (case prev of
              None \<Rightarrow> None
            | Some p \<Rightarrow> if ascii_digit p then drop_underscores (Some c) cs else None)
      else if prev = Some CHR ''_'' \<and> \<not> ascii_digit c then None
      else map_option ((#) c) (drop_underscores (Some c) cs))"

definition lower :: "char \<Rightarrow> char" where
  "lower c =
     (if 65 \<le> (of_char c :: int) \<and> (of_char c :: int) \<le> 90
      then char_of (of_char c + (32 :: int)) else c)"

definition digits_value :: "string \<Rightarrow> int" where
  "digits_value ds = foldl (\<lambda>a c. 10 * a + (of_char c - 48)) 0 ds"

text \<open>The exponent part: empty, or \<^verbatim>\<open>e\<close>/\<^verbatim>\<open>E\<close>, an optional sign and at least one digit.\<close>

definition exponent :: "string \<Rightarrow> int option" where
  "exponent s =
     (case s of
        [] \<Rightarrow> Some 0
      | c # cs \<Rightarrow>
          if c = CHR ''e'' \<or> c = CHR ''E'' then
            (let neg = (cs \<noteq> [] \<and> hd cs = CHR ''-'');
                 ds = (if cs \<noteq> [] \<and> (hd cs = CHR ''-'' \<or> hd cs = CHR ''+'') then tl cs else cs)
             in if ds \<noteq> [] \<and> list_all ascii_digit ds
                then Some (if neg then - digits_value ds else digits_value ds)
                else None)
          else None)"

text \<open>The unsigned part of a literal.\<close>

definition unsigned_lit :: "bool \<Rightarrow> string \<Rightarrow> float_lit option" where
  "unsigned_lit neg s =
     (if map lower s = ''inf'' \<or> map lower s = ''infinity'' then Some (Infinity neg)
      else if map lower s = ''nan'' then Some NaN
      else
        (let ip = takeWhile ascii_digit s;
             r1 = dropWhile ascii_digit s;
             dot = (r1 \<noteq> [] \<and> hd r1 = CHR ''.'');
             fp = (if dot then takeWhile ascii_digit (tl r1) else []);
             r2 = (if dot then dropWhile ascii_digit (tl r1) else r1)
         in if ip = [] \<and> fp = [] then None
            else (case exponent r2 of
                    None \<Rightarrow> None
                  | Some e \<Rightarrow> Some (Decimal neg (digits_value (ip @ fp)) (e - int (length fp))))))"

definition float_syntax :: "string \<Rightarrow> float_lit option" where
  "float_syntax s =
     (case drop_underscores None (strip (map to_ascii s)) of
        None \<Rightarrow> None
      | Some t \<Rightarrow>
          (case t of
             [] \<Rightarrow> None
           | c # cs \<Rightarrow>
               if c = CHR ''-'' then unsigned_lit True cs
               else if c = CHR ''+'' then unsigned_lit False cs
               else unsigned_lit False t))"

subsection \<open>Float arithmetic\<close>

text \<open>
  The arithmetic of Python's \<^verbatim>\<open>float\<close> is not fixed by the model: the functions below take
  it as a record of operations on a type \<open>'f\<close> of float values, and what is proved of them
  holds for every such record, the IEEE doubles of CPython included.
  \<open>of_literal\<close> rounds an accepted literal, \<open>fsum\<close> is the builtin \<^verbatim>\<open>sum\<close> of a list of
  floats, \<open>fsub\<close> is \<^verbatim>\<open>-\<close>, \<open>fabs\<close> is \<^verbatim>\<open>abs\<close>, \<open>fless\<close> is \<^verbatim>\<open><\<close> and \<open>tolerance\<close> is the
  constant \<^verbatim>\<open>0.01\<close>.
\<close>

record 'f float_ops =
  of_literal :: "float_lit \<Rightarrow> 'f"
  fsum :: "'f list \<Rightarrow> 'f"
  fsub :: "'f \<Rightarrow> 'f \<Rightarrow> 'f"
  fabs :: "'f \<Rightarrow> 'f"
  fless :: "'f \<Rightarrow> 'f \<Rightarrow> bool"
  tolerance :: "'f"

text \<open>\<^verbatim>\<open>float(s)\<close>.\<close>

definition py_float :: "'f float_ops \<Rightarrow> string \<Rightarrow> error + 'f" where
  "py_float fl s =
     (case float_syntax s of
        None \<Rightarrow> Inl ValueError
      | Some lit \<Rightarrow> Inr (of_literal fl lit))"

text \<open>
  One interpretation of the operations, used to run the functions on concrete tables:
  the extended rationals with exact arithmetic.  It agrees with the doubles wherever the
  doubles do not round.
\<close>

datatype xfloat = Finite rat | PInf | NInf | NotANumber

fun xneg :: "xfloat \<Rightarrow> xfloat" where
  "xneg (Finite a) = Finite (- a)"
| "xneg PInf = NInf"
| "xneg NInf = PInf"
| "xneg NotANumber = NotANumber"

fun xadd :: "xfloat \<Rightarrow> xfloat \<Rightarrow> xfloat" where
  "xadd (Finite a) (Finite b) = Finite (a + b)"
| "xadd NotANumber y = NotANumber"
| "xadd x NotANumber = NotANumber"
| "xadd PInf NInf = NotANumber"
| "xadd NInf PInf = NotANumber"
| "xadd PInf y = PInf"
| "xadd NInf y = NInf"
| "xadd (Finite a) y = y"

definition xsub :: "xfloat \<Rightarrow> xfloat \<Rightarrow> xfloat" where
  "xsub x y = xadd x (xneg y)"

fun xabs :: "xfloat \<Rightarrow> xfloat" where
  "xabs (Finite a) = Finite \<bar>a\<bar>"
| "xabs PInf = PInf"
| "xabs NInf = PInf"
| "xabs NotANumber = NotANumber"

fun xless :: "xfloat \<Rightarrow> xfloat \<Rightarrow> bool" where
  "xless (Finite a) (Finite b) = (a < b)"
| "xless NotANumber y = False"
| "xless x NotANumber = False"
| "xless x NInf = False"
| "xless PInf y = False"
| "xless NInf y = True"
| "xless (Finite a) PInf = True"

fun exact_value :: "float_lit \<Rightarrow> xfloat" where
  "exact_value (Decimal neg m e) =
     Finite ((if neg then - of_int m else of_int m) *
             (if 0 \<le> e then 10 ^ nat e else 1 / 10 ^ nat (- e)))"
| "exact_value (Infinity neg) = (if neg then NInf else PInf)"
| "exact_value NaN = NotANumber"

definition exact_arith :: "xfloat float_ops" where
  "exact_arith =
     \<lparr> of_literal = exact_value,
       fsum = foldl xadd (Finite 0),
       fsub = xsub,
       fabs = xabs,
       fless = xless,
       tolerance = Finite (1 / 100) \<rparr>"

section \<open>The account table: \<^verbatim>\<open>NewAccountPage.calculations\<close>\<close>

text \<open>
  \<^verbatim>\<open>calculations\<close> first reads the rows of the account table into \<^verbatim>\<open>all_td_values\<close>, a list
  of rows, each the list of the texts of its cells, and then works on that list alone.
  The functions of this section are that second part, from the test for an empty table
  to the \<^verbatim>\<open>return\<close>, as a function of \<^verbatim>\<open>all_td_values\<close>.
\<close>

text \<open>\<^verbatim>\<open>[item[0] for item in all_td_values if item and item[0] and item[0].isdigit()]\<close>\<close>

definition account_ids :: "string list list \<Rightarrow> string list" where
  "account_ids all_td_values =
     map (\<lambda>item. item ! 0)
       (filter (\<lambda>item. item \<noteq> [] \<and> item ! 0 \<noteq> [] \<and> isdigit (item ! 0)) all_td_values)"

text \<open>\<^verbatim>\<open>[item[1] for item in all_td_values if len(item) > 1 and item[1] not in ['Total', '\xa0']]\<close>\<close>

definition middle_values :: "string list list \<Rightarrow> string list" where
  "middle_values all_td_values =
     map (\<lambda>item. item ! 1)
       (filter (\<lambda>item. 1 < length item \<and> item ! 1 \<notin> set [''Total'', nbsp]) all_td_values)"

text \<open>\<^verbatim>\<open>value.replace('$', '').replace(',', '')\<close>\<close>

definition strip_currency :: "string \<Rightarrow> string" where
  "strip_currency v = remove_char CHR '','' (remove_char CHR ''$'' v)"

text \<open>The filter of the third comprehension:
  \<^verbatim>\<open>value.replace('$', '').replace(',', '').replace('.', '').isdigit()\<close>\<close>

definition looks_numeric :: "string \<Rightarrow> bool" where
  "looks_numeric v = isdigit (remove_char CHR ''.'' (strip_currency v))"

text \<open>
  The third comprehension over a list of values: a value that passes the filter is
  handed to \<^verbatim>\<open>float\<close>, whose \<^verbatim>\<open>ValueError\<close> ends the comprehension.
\<close>

fun floats_of :: "'f float_ops \<Rightarrow> string list \<Rightarrow> error + 'f list" where
  "floats_of fl [] = Inr []"
| "floats_of fl (v # vs) =
     (if looks_numeric v then
        (case py_float fl (strip_currency v) of
           Inl e \<Rightarrow> Inl e
         | Inr x \<Rightarrow> (case floats_of fl vs of Inl e \<Rightarrow> Inl e | Inr xs \<Rightarrow> Inr (x # xs)))
      else floats_of fl vs)"

text \<open>\<^verbatim>\<open>numeric_values\<close>: the comprehension runs over \<^verbatim>\<open>middle_values[:-1]\<close>.\<close>

definition numeric_values :: "'f float_ops \<Rightarrow> string list list \<Rightarrow> error + 'f list" where
  "numeric_values fl all_td_values = floats_of fl (butlast (middle_values all_td_values))"

definition calculations :: "'f float_ops \<Rightarrow> string list list \<Rightarrow> error + string list" where
  "calculations fl all_td_values =
     (if all_td_values = [] then Inr []
      else
        (case numeric_values fl all_td_values of
           Inl e \<Rightarrow> Inl e
         | Inr nums \<Rightarrow>
             if 1 < length all_td_values \<and> 1 < length (last all_td_values) then
               (case py_float fl (strip_currency (last all_td_values ! 1)) of
                  Inl e \<Rightarrow> Inl e
                | Inr expected_total \<Rightarrow>
                    if fless fl (fabs fl (fsub fl (fsum fl nums) expected_total)) (tolerance fl)
                    then Inr (account_ids all_td_values)
                    else Inl AssertionError)
             else Inr (account_ids all_td_values)))"

section \<open>The page objects\<close>

text \<open>
  The browser is an external collaborator.  Its state, together with the state of the
  bank behind it, is a value of an arbitrary type \<open>'w\<close>; every call of the driver takes
  that state, may change it, and either succeeds or raises.  Locators are named after the
  selectors of the source.
\<close>

datatype locator =
    OpenNewAccountMenu     \<comment> \<open>\<^verbatim>\<open>text=Open New Account\<close>\<close>
  | AccountTypeCombo       \<comment> \<open>\<^verbatim>\<open>get_by_role("combobox").first\<close>\<close>
  | OpenAccountButton      \<comment> \<open>\<^verbatim>\<open>input[type='button']\<close>\<close>
  | AccountsOverviewLink   \<comment> \<open>\<^verbatim>\<open>text=Accounts Overview\<close>\<close>
  | ActivityLinks          \<comment> \<open>\<^verbatim>\<open>a[href^='activity.htm']\<close>\<close>
  | AccountTableRows       \<comment> \<open>\<^verbatim>\<open>//*[@id="accountTable"]/tbody/tr\<close>\<close>
  | TransferFundsLink      \<comment> \<open>\<^verbatim>\<open>text=Transfer Funds\<close>\<close>
  | AmountField            \<comment> \<open>\<^verbatim>\<open>input[name="amount"]\<close>\<close>
  | FromAccountSelect      \<comment> \<open>\<^verbatim>\<open>select[name="fromAccountId"]\<close>\<close>
  | ToAccountSelect        \<comment> \<open>\<^verbatim>\<open>select[name="toAccountId"]\<close>\<close>
  | TransferButton         \<comment> \<open>\<^verbatim>\<open>input[value="Transfer"]\<close>\<close>
  | BillPayLink            \<comment> \<open>\<^verbatim>\<open>text=Bill Pay\<close>\<close>
  | PayeeName              \<comment> \<open>\<^verbatim>\<open>input[name="payee.name"]\<close>\<close>
  | PayeeStreet            \<comment> \<open>\<^verbatim>\<open>input[name="payee.address.street"]\<close>\<close>
  | PayeeCity              \<comment> \<open>\<^verbatim>\<open>input[name="payee.address.city"]\<close>\<close>
  | PayeeState             \<comment> \<open>\<^verbatim>\<open>input[name="payee.address.state"]\<close>\<close>
  | PayeeZipCode           \<comment> \<open>\<^verbatim>\<open>input[name="payee.address.zipCode"]\<close>\<close>
  | PhoneNumber            \<comment> \<open>\<^verbatim>\<open>input[name="phoneNumber"]\<close>\<close>
  | SendPaymentButton      \<comment> \<open>\<^verbatim>\<open>input[value="Send Payment"]\<close>\<close>

datatype ui_action =
    Click locator
  | Fill locator string
  | SelectOption locator string
  | ExpectVisible locator          \<comment> \<open>\<^verbatim>\<open>expect(...).to_be_visible(timeout=5000)\<close>\<close>
  | WaitForSelector locator
  | WaitForLoadState string
  | KeyboardPress string
  | KeyboardType string
  | Screenshot string

text \<open>
  \<open>perform\<close> runs one interaction (\<open>None\<close>: it succeeded), \<open>href_attributes\<close> is the
  \<^verbatim>\<open>evaluate_all\<close> that reads the \<^verbatim>\<open>href\<close> of every activity link, \<open>table_cells\<close> is the double
  loop of \<^verbatim>\<open>calculations\<close> that reads the text of every cell of every row of the account
  table, and \<open>is_visible\<close> is \<^verbatim>\<open>Locator.is_visible\<close>.
\<close>

record 'w driver =
  perform :: "ui_action \<Rightarrow> 'w \<Rightarrow> error option \<times> 'w"
  href_attributes :: "'w \<Rightarrow> (error + string list) \<times> 'w"
  table_cells :: "'w \<Rightarrow> (error + string list list) \<times> 'w"
  is_visible :: "locator \<Rightarrow> 'w \<Rightarrow> (error + bool) \<times> 'w"

text \<open>A run of interactions, one after the other, up to the first that raises.\<close>

fun perform_all :: "'w driver \<Rightarrow> ui_action list \<Rightarrow> 'w \<Rightarrow> error option \<times> 'w" where
  "perform_all d [] w = (None, w)"
| "perform_all d (a # as) w =
     (case perform d a w of
        (Some e, w') \<Rightarrow> (Some e, w')
      | (None, w') \<Rightarrow> perform_all d as w')"

text \<open>The result of a method that returns \<^verbatim>\<open>None\<close> unless an interaction raised.\<close>

definition finished :: "error option \<times> 'w \<Rightarrow> (error + unit) \<times> 'w" where
  "finished r = (case r of (Some e, w) \<Rightarrow> (Inl e, w) | (None, w) \<Rightarrow> (Inr (), w))"

subsection \<open>\<^verbatim>\<open>create_savings_account\<close>\<close>

text \<open>The end of the method, from the test of \<^verbatim>\<open>activity_links\<close> on.\<close>

definition last_account_id :: "string list \<Rightarrow> error + string" where
  "last_account_id activity_links =
     (if activity_links = [] then Inl PlainException
      else
        (let last_link = last activity_links
         in Inr (if contains ''id='' last_link then split last_link ''id='' ! 1 else [])))"

text \<open>The interactions of the method up to the reading of the links.\<close>

definition open_account_steps :: "ui_action list" where
  "open_account_steps =
     [Click OpenNewAccountMenu,
      ExpectVisible AccountTypeCombo,
      SelectOption AccountTypeCombo ''1'',
      Click OpenAccountButton,
      ExpectVisible AccountsOverviewLink,
      Click AccountsOverviewLink,
      WaitForSelector ActivityLinks]"

definition create_savings_account :: "'w driver \<Rightarrow> 'w \<Rightarrow> (error + string) \<times> 'w" where
  "create_savings_account d w =
     (case perform_all d open_account_steps w of
        (Some e, w') \<Rightarrow> (Inl e, w')
      | (None, w') \<Rightarrow>
          (case href_attributes d w' of
             (Inl e, w'') \<Rightarrow> (Inl e, w'')
           | (Inr activity_links, w'') \<Rightarrow> (last_account_id activity_links, w'')))"

subsection \<open>\<^verbatim>\<open>calculations\<close> on the page\<close>

definition calculations_on_page ::
    "'w driver \<Rightarrow> 'f float_ops \<Rightarrow> 'w \<Rightarrow> (error + string list) \<times> 'w" where
  "calculations_on_page d fl w =
     (case perform d (WaitForSelector AccountTableRows) w of
        (Some e, w') \<Rightarrow> (Inl e, w')
      | (None, w') \<Rightarrow>
          (case table_cells d w' of
             (Inl e, w'') \<Rightarrow> (Inl e, w'')
           | (Inr all_td_values, w'') \<Rightarrow> (calculations fl all_td_values, w'')))"

subsection \<open>\<^verbatim>\<open>transfer_funds\<close>\<close>

text \<open>
  The argument \<^verbatim>\<open>account_ids\<close> of the methods is written \<open>ids\<close> below.
  \<open>transfer_form\<close> is the second half of \<^verbatim>\<open>transfer_funds\<close>, from the second test of the
  length on.
\<close>

definition transfer_form :: "'w driver \<Rightarrow> string list \<Rightarrow> 'w \<Rightarrow> (error + unit) \<times> 'w" where
  "transfer_form d ids w =
     (if length ids < 2 then (Inr (), w)
      else
        (let from_account = ids ! 0;
             to_account = ids ! 1
         in finished (perform_all d
              [Click TransferFundsLink,
               Fill AmountField ''1000'',
               SelectOption FromAccountSelect from_account,
               SelectOption ToAccountSelect to_account,
               Click TransferButton] w)))"

definition transfer_funds ::
    "'w driver \<Rightarrow> 'f float_ops \<Rightarrow> string list \<Rightarrow> 'w \<Rightarrow> (error + unit) \<times> 'w" where
  "transfer_funds d fl ids w =
     (if length ids < 2 then
        (case create_savings_account d w of
           (Inl e, w1) \<Rightarrow> (Inl e, w1)
         | (Inr new_id, w1) \<Rightarrow>
             (case perform d (WaitForLoadState ''networkidle'') w1 of
                (Some e, w2) \<Rightarrow> (Inl e, w2)
              | (None, w2) \<Rightarrow>
                  (case calculations_on_page d fl w2 of
                     (Inl e, w3) \<Rightarrow> (Inl e, w3)
                   | (Inr new_ids, w3) \<Rightarrow>
                       if length new_ids < 2 then (Inr (), w3)
                       else transfer_form d new_ids w3)))
      else transfer_form d ids w)"

subsection \<open>\<^verbatim>\<open>pay_bill\<close>\<close>

text \<open>The body of the \<^verbatim>\<open>try\<close> block around the phone field.\<close>

definition fill_phone :: "'w driver \<Rightarrow> 'w \<Rightarrow> error option \<times> 'w" where
  "fill_phone d w =
     (case is_visible d PhoneNumber w of
        (Inl e, w') \<Rightarrow> (Some e, w')
      | (Inr visible, w') \<Rightarrow>
          if visible then perform d (Fill PhoneNumber ''1234567890'') w'
          else perform_all d [KeyboardPress ''Tab'', KeyboardType ''1234567890''] w')"

definition pay_bill :: "'w driver \<Rightarrow> string list \<Rightarrow> 'w \<Rightarrow> (error + unit) \<times> 'w" where
  "pay_bill d ids w =
     (if ids = [] then (Inr (), w)
      else
        (let from_account = ids ! 0
         in case perform_all d
                  [Click BillPayLink,
                   Fill PayeeName ''Electricity Company'',
                   Fill PayeeStreet ''123 Main St'',
                   Fill PayeeCity ''New York'',
                   Fill PayeeState ''NY'',
                   Fill PayeeZipCode ''10001''] w of
              (Some e, w1) \<Rightarrow> (Inl e, w1)
            | (None, w1) \<Rightarrow>
                (case fill_phone d w1 of
                   (Some e, w2) \<Rightarrow> finished (perform d (Screenshot ''phone_field_error.png'') w2)
                 | (None, w2) \<Rightarrow>
                     finished (perform_all d
                       [SelectOption FromAccountSelect from_account,
                        Fill AmountField ''500'',
                        Click SendPaymentButton,
                        WaitForLoadState ''networkidle''] w2))))"

text \<open>
  A driver to run the page objects on: the state is the list of the interactions done so
  far, every interaction succeeds and is appended to it, the activity links and the
  account table are fixed, and every element is visible.
\<close>

definition recording_driver :: "string list \<Rightarrow> string list list \<Rightarrow> (ui_action list) driver" where
  "recording_driver links rows =
     \<lparr> perform = (\<lambda>a w. (None, w @ [a])),
       href_attributes = (\<lambda>w. (Inr links, w)),
       table_cells = (\<lambda>w. (Inr rows, w)),
       is_visible = (\<lambda>l w. (Inr True, w)) \<rparr>"

section \<open>The demo credentials: \<^verbatim>\<open>load_demo_credentials\<close>\<close>

text \<open>
  What \<^verbatim>\<open>json.load\<close> returns.  A dictionary is the list of its items in insertion order;
  the floats are again of an arbitrary type \<open>'f\<close>.
\<close>

datatype 'f json =
    JNull
  | JBool bool
  | JInt int
  | JFloat 'f
  | JString string
  | JArray "'f json list"
  | JObject "(string \<times> 'f json) list"

text \<open>
  The builtins that the function applies to such values and that the model does not spell
  out: \<^verbatim>\<open>bool(x)\<close> and \<^verbatim>\<open>repr(x)\<close> of a float, and \<^verbatim>\<open>repr(s)\<close> of a string (quotes and escapes).
\<close>

record 'f builtins =
  float_truth :: "'f \<Rightarrow> bool"
  float_repr :: "'f \<Rightarrow> string"
  str_repr :: "string \<Rightarrow> string"

text \<open>The truth value of a JSON value in a condition.\<close>

fun truthy :: "'f builtins \<Rightarrow> 'f json \<Rightarrow> bool" where
  "truthy b JNull = False"
| "truthy b (JBool x) = x"
| "truthy b (JInt i) = (i \<noteq> 0)"
| "truthy b (JFloat x) = float_truth b x"
| "truthy b (JString s) = (s \<noteq> [])"
| "truthy b (JArray xs) = (xs \<noteq> [])"
| "truthy b (JObject kvs) = (kvs \<noteq> [])"

text \<open>The decimal digits of a natural number, and \<^verbatim>\<open>str\<close> of an integer.\<close>

function digits_of :: "nat \<Rightarrow> string" where
  "digits_of n =
     (if n < 10 then [char_of (48 + n)]
      else digits_of (n div 10) @ [char_of (48 + n mod 10)])"
  by pat_completeness auto
termination
  by (relation "measure id") auto

declare digits_of.simps [simp del]

definition str_int :: "int \<Rightarrow> string" where
  "str_int i = (if i < 0 then CHR ''-'' # digits_of (nat (- i)) else digits_of (nat i))"

text \<open>\<^verbatim>\<open>', '.join(parts)\<close>\<close>

fun join_comma :: "string list \<Rightarrow> string" where
  "join_comma [] = []"
| "join_comma [p] = p"
| "join_comma (p # q # ps) = p @ '', '' @ join_comma (q # ps)"

text \<open>\<^verbatim>\<open>repr(v)\<close> and \<^verbatim>\<open>str(v)\<close>; they differ on strings only.\<close>

fun py_repr :: "'f builtins \<Rightarrow> 'f json \<Rightarrow> string" where
  "py_repr b JNull = ''None''"
| "py_repr b (JBool x) = (if x then ''True'' else ''False'')"
| "py_repr b (JInt i) = str_int i"
| "py_repr b (JFloat x) = float_repr b x"
| "py_repr b (JString s) = str_repr b s"
| "py_repr b (JArray xs) = ''['' @ join_comma (map (py_repr b) xs) @ '']''"
| "py_repr b (JObject kvs) =
     ''{'' @ join_comma (map (\<lambda>kv. str_repr b (fst kv) @ '': '' @ py_repr b (snd kv)) kvs) @ ''}''"

definition py_str :: "'f builtins \<Rightarrow> 'f json \<Rightarrow> string" where
  "py_str b v = (case v of JString s \<Rightarrow> s | _ \<Rightarrow> py_repr b v)"

text \<open>
  \<^verbatim>\<open>credentials.get(key)\<close>: only a dictionary has the method; a missing key gives \<^verbatim>\<open>None\<close>.
\<close>

definition dict_get :: "'f json \<Rightarrow> string \<Rightarrow> error + 'f json" where
  "dict_get credentials key =
     (case credentials of
        JObject kvs \<Rightarrow> Inr (case map_of kvs key of None \<Rightarrow> JNull | Some v \<Rightarrow> v)
      | _ \<Rightarrow> Inl AttributeError)"

text \<open>
  The file system as the function sees it: whether \<^verbatim>\<open>data/credentials.json\<close> exists, and
  what opening it and \<^verbatim>\<open>json.load\<close> give: an exception of \<^verbatim>\<open>open\<close> (the file cannot be
  read), an exception of \<^verbatim>\<open>json.load\<close> (the text is no JSON), or the value read.
\<close>

record 'f credentials_file =
  path_exists :: bool
  open_and_load :: "error + 'f json"

record credentials =
  username :: string
  password :: string

text \<open>The body of the \<^verbatim>\<open>try\<close>: \<open>Inr None\<close> when it ends without reaching its \<^verbatim>\<open>return\<close>.\<close>

definition try_load ::
    "'f builtins \<Rightarrow> 'f credentials_file \<Rightarrow> error + credentials option" where
  "try_load b fs =
     (if path_exists fs then
        (case open_and_load fs of
           Inl e \<Rightarrow> Inl e
         | Inr creds \<Rightarrow>
             (case dict_get creds ''username'' of
                Inl e \<Rightarrow> Inl e
              | Inr u \<Rightarrow>
                  if truthy b u then
                    (case dict_get creds ''password'' of
                       Inl e \<Rightarrow> Inl e
                     | Inr pw \<Rightarrow>
                         if truthy b pw
                         then Inr (Some \<lparr> username = py_str b u, password = py_str b pw \<rparr>)
                         else Inr None)
                  else Inr None))
      else Inr None)"

text \<open>
  The function: \<^verbatim>\<open>except Exception\<close> catches every exception of the body, and both the
  handler and the body that did not return fall through to the defaults.
\<close>

definition load_demo_credentials ::
    "'f builtins \<Rightarrow> 'f credentials_file \<Rightarrow> error + credentials" where
  "load_demo_credentials b fs =
     (case try_load b fs of
        Inr (Some found) \<Rightarrow> Inr found
      | Inr None \<Rightarrow> Inr \<lparr> username = ''john'', password = ''demo'' \<rparr>
      | Inl e \<Rightarrow> Inr \<lparr> username = ''john'', password = ''demo'' \<rparr>)"

text \<open>
  Builtins to run the function on documents whose only float is \<^verbatim>\<open>0.0\<close>; the \<^verbatim>\<open>repr\<close> of a
  string is taken to put it between single quotes.
\<close>

definition plain_builtins :: "unit builtins" where
  "plain_builtins =
     \<lparr> float_truth = (\<lambda>x. False),
       float_repr = (\<lambda>x. ''0.0''),
       str_repr = (\<lambda>s. [CHR 0x27] @ s @ [CHR 0x27]) \<rparr>"

section \<open>Statements of the specification\<close>

text \<open>
  The identifier list as the specification words it: the data rows are all rows but the
  last when there is more than one row, and an identifier is a first cell that is
  syntactically a non-negative integer, a non-empty run of the digits 0 to 9.
\<close>

definition spec_data_rows :: "string list list \<Rightarrow> string list list" where
  "spec_data_rows rows = (if 1 < length rows then butlast rows else rows)"

definition spec_identifiers :: "string list list \<Rightarrow> string list" where
  "spec_identifiers rows =
     map (\<lambda>r. r ! 0)
       (filter (\<lambda>r. r \<noteq> [] \<and> r ! 0 \<noteq> [] \<and> list_all ascii_digit (r ! 0)) (spec_data_rows rows))"

text \<open>
  The recovery of \<^verbatim>\<open>transfer_funds\<close>, which the specification calls the recovery callback:
  the three calls that the method makes when it was given fewer than two identifiers.
\<close>

definition recovery ::
    "'w driver \<Rightarrow> 'f float_ops \<Rightarrow> 'w \<Rightarrow> (error + string list) \<times> 'w" where
  "recovery d fl w =
     (case create_savings_account d w of
        (Inl e, w1) \<Rightarrow> (Inl e, w1)
      | (Inr new_id, w1) \<Rightarrow>
          (case perform d (WaitForLoadState ''networkidle'') w1 of
             (Some e, w2) \<Rightarrow> (Inl e, w2)
           | (None, w2) \<Rightarrow> calculations_on_page d fl w2))"

text \<open>The five interactions that submit a transfer between two accounts.\<close>

definition submit_transfer :: "'w driver \<Rightarrow> string \<Rightarrow> string \<Rightarrow> 'w \<Rightarrow> (error + unit) \<times> 'w" where
  "submit_transfer d from_account to_account w =
     finished (perform_all d
       [Click TransferFundsLink,
        Fill AmountField ''1000'',
        SelectOption FromAccountSelect from_account,
        SelectOption ToAccountSelect to_account,
        Click TransferButton] w)"

section \<open>Properties of \<^verbatim>\<open>calculations\<close>\<close>

lemma numeric_values_single: "numeric_values fl [row] = Inr []"
proof -
  have "butlast (middle_values [row]) = []"
    by (simp add: middle_values_def)
  then show ?thesis by (simp add: numeric_values_def)
qed

text \<open>
  C2.  The sum is meant to leave out every balance cell that is not numeric once the
  currency sign and the separators are gone, without an error.  The filter of the
  comprehension removes the dots before it tests for digits, so a cell with two dots
  passes it and reaches \<^verbatim>\<open>float\<close>: on the table below \<^verbatim>\<open>calculations\<close> raises \<^verbatim>\<open>ValueError\<close>,
  whatever the float arithmetic is.
\<close>

theorem malformed_balance_raises:
  "calculations fl [[''1001'', ''1.2.3''], [''Total'', ''$0.00'']] = Inl ValueError"
  by code_simp

text \<open>
  C7.  The empty table gives the empty identifier list.  A table of one row has no totals
  row: the call returns, with the identifier of that row if it is one, and no comparison
  is made.  An exception of any kind needs more than one row.
\<close>

theorem single_row_has_no_totals_row:
  "calculations fl [] = Inr []
   \<and> calculations fl [row] = Inr (if row \<noteq> [] \<and> isdigit (row ! 0) then [row ! 0] else [])
   \<and> (calculations fl rows = Inl e \<longrightarrow> 1 < length rows)"
proof (intro conjI impI)
  show "calculations fl [] = Inr []" by (simp add: calculations_def)
  show "calculations fl [row] = Inr (if row \<noteq> [] \<and> isdigit (row ! 0) then [row ! 0] else [])"
    by (auto simp add: calculations_def numeric_values_single account_ids_def isdigit_def)
  assume e: "calculations fl rows = Inl e"
  show "1 < length rows"
  proof (cases rows)
    case Nil
    with e show ?thesis by (simp add: calculations_def)
  next
    case (Cons r rs)
    show ?thesis
    proof (cases rs)
      case Nil
      with Cons e show ?thesis by (simp add: calculations_def numeric_values_single)
    next
      case (Cons a list)
      with \<open>rows = r # rs\<close> show ?thesis by simp
    qed
  qed
qed

theorem single_row_has_no_totals_row_witness:
  "calculations exact_arith [[''1001'', ''$500.00''], [''Total'', ''$800.00'']] = Inl AssertionError
   \<and> 1 < length [[''1001'', ''$500.00''], [''Total'', ''$800.00'']]
   \<and> calculations exact_arith [[''1001'', ''$500.00'']] = Inr [''1001'']"
proof -
  have raised:
    "calculations exact_arith [[''1001'', ''$500.00''], [''Total'', ''$800.00'']] = Inl AssertionError"
    by code_simp
  have digits: "isdigit ''1001''"
    by code_simp
  from raised digits
    single_row_has_no_totals_row
      [of exact_arith "[''1001'', ''$500.00'']"
          "[[''1001'', ''$500.00''], [''Total'', ''$800.00'']]" AssertionError]
  show ?thesis by simp
qed













text \<open>
  C3 as stated fails: the comprehension of the identifiers runs over every row, the last
  one too.  On a table whose last row has a numeric first cell the returned list holds
  that cell, and the list of the specification does not.
\<close>

theorem last_row_identifier_is_returned:
  "calculations exact_arith [[''1001'', ''$5.00''], [''1002'', ''$5.00'']] = Inr [''1001'', ''1002'']
   \<and> spec_identifiers [[''1001'', ''$5.00''], [''1002'', ''$5.00'']] = [''1001'']"
  by code_simp

text \<open>
  C3, amended.  The returned identifier list is, in the order of the rows, the first cell
  of every row, the last row included, whose first cell is a non-empty string of
  characters that \<^verbatim>\<open>str.isdigit\<close> accepts.  A row with no cell, or with a first cell that is
  blank or not numeric, is passed over: the rows before and after it contribute as they
  would without it.
\<close>

theorem identifiers_of_all_rows:
  "(calculations fl rows = Inr ids
      \<longrightarrow> ids = map (\<lambda>r. r ! 0) (filter (\<lambda>r. r \<noteq> [] \<and> isdigit (r ! 0)) rows))
   \<and> (\<not> (r \<noteq> [] \<and> isdigit (r ! 0))
      \<longrightarrow> account_ids (earlier @ r # later) = account_ids earlier @ account_ids later)"
proof (intro conjI impI)
  assume "calculations fl rows = Inr ids"
  then have "ids = account_ids rows"
    by (auto simp add: calculations_def account_ids_def split: if_splits sum.splits)
  moreover have "(\<lambda>r. r \<noteq> [] \<and> r ! 0 \<noteq> [] \<and> isdigit (r ! 0)) = (\<lambda>r. r \<noteq> [] \<and> isdigit (r ! 0))"
    by (auto simp add: isdigit_def)
  ultimately show "ids = map (\<lambda>r. r ! 0) (filter (\<lambda>r. r \<noteq> [] \<and> isdigit (r ! 0)) rows)"
    by (simp add: account_ids_def)
next
  assume "\<not> (r \<noteq> [] \<and> isdigit (r ! 0))"
  then show "account_ids (earlier @ r # later) = account_ids earlier @ account_ids later"
    by (auto simp add: account_ids_def)
qed

theorem identifiers_of_all_rows_witness:
  "calculations exact_arith [[''1001'', ''$5.00''], [[]], [''1002'', ''$5.00'']]
     = Inr [''1001'', ''1002'']
   \<and> [''1001'', ''1002'']
     = map (\<lambda>r. r ! 0)
         (filter (\<lambda>r. r \<noteq> [] \<and> isdigit (r ! 0)) [[''1001'', ''$5.00''], [[]], [''1002'', ''$5.00'']])
   \<and> \<not> ([[]] \<noteq> [] \<and> isdigit ([[]] ! 0))
   \<and> account_ids ([[''1001'', ''$5.00'']] @ [[]] # [[''1002'', ''$5.00'']])
     = account_ids [[''1001'', ''$5.00'']] @ account_ids [[''1002'', ''$5.00'']]"
proof -
  have returned:
    "calculations exact_arith [[''1001'', ''$5.00''], [[]], [''1002'', ''$5.00'']]
       = Inr [''1001'', ''1002'']"
    by code_simp
  have blank: "\<not> ([[]] \<noteq> [] \<and> isdigit ([[]] ! 0))"
    by code_simp
  from returned blank
    identifiers_of_all_rows
      [of exact_arith "[[''1001'', ''$5.00''], [[]], [''1002'', ''$5.00'']]"
          "[''1001'', ''1002'']" "[[]]" "[[''1001'', ''$5.00'']]" "[[''1002'', ''$5.00'']]"]
  show ?thesis by simp
qed















section \<open>Properties of the page objects\<close>

text \<open>
  C10.  \<^verbatim>\<open>pay_bill\<close> with an empty list of identifiers returns at once: no exception, and
  the state of the browser is the one it was given, whatever the driver is.
\<close>

theorem pay_bill_without_accounts: "pay_bill d [] w = (Inr (), w)"
  by (simp add: pay_bill_def)

theorem pay_bill_without_accounts_witness:
  "pay_bill (recording_driver [] []) [] [] = (Inr (), [])"
  using pay_bill_without_accounts [of "recording_driver [] []" "[]"] by simp

lemma transfer_funds_via_recovery:
  "length ids < 2 \<Longrightarrow>
   transfer_funds d fl ids w =
     (case recovery d fl w of
        (Inl e, w') \<Rightarrow> (Inl e, w')
      | (Inr new_ids, w') \<Rightarrow>
          if length new_ids < 2 then (Inr (), w') else transfer_form d new_ids w')"
  by (simp add: transfer_funds_def recovery_def split: prod.splits sum.splits option.splits)

lemma transfer_form_submits:
  "2 \<le> length ids \<Longrightarrow> transfer_form d ids w = submit_transfer d (ids ! 0) (ids ! 1) w"
  by (simp add: transfer_form_def submit_transfer_def)

text \<open>
  C5.  With at least two identifiers \<^verbatim>\<open>transfer_funds\<close> submits the transfer from the first
  to the second, and the recovery is not run.  With fewer than two it runs the recovery
  once, from the state it was given: if the recovery returns at least two identifiers,
  the transfer is submitted from the first to the second of those, in the state the
  recovery left; if it returns fewer than two, the method returns in that state and no
  transfer is submitted; if it raises, so does the method.
\<close>

theorem transfer_accounts_are_planned:
  "(2 \<le> length ids \<longrightarrow> transfer_funds d fl ids w = submit_transfer d (ids ! 0) (ids ! 1) w)
   \<and> (length ids < 2 \<and> recovery d fl w = (Inr new_ids, w') \<and> 2 \<le> length new_ids
        \<longrightarrow> transfer_funds d fl ids w = submit_transfer d (new_ids ! 0) (new_ids ! 1) w')
   \<and> (length ids < 2 \<and> recovery d fl w = (Inr new_ids, w') \<and> length new_ids < 2
        \<longrightarrow> transfer_funds d fl ids w = (Inr (), w'))
   \<and> (length ids < 2 \<and> recovery d fl w = (Inl e, w')
        \<longrightarrow> transfer_funds d fl ids w = (Inl e, w'))"
proof (intro conjI impI)
  assume "2 \<le> length ids"
  then show "transfer_funds d fl ids w = submit_transfer d (ids ! 0) (ids ! 1) w"
    by (simp add: transfer_funds_def transfer_form_submits)
next
  assume "length ids < 2 \<and> recovery d fl w = (Inr new_ids, w') \<and> 2 \<le> length new_ids"
  then show "transfer_funds d fl ids w = submit_transfer d (new_ids ! 0) (new_ids ! 1) w'"
    by (simp add: transfer_funds_via_recovery transfer_form_submits)
next
  assume "length ids < 2 \<and> recovery d fl w = (Inr new_ids, w') \<and> length new_ids < 2"
  then show "transfer_funds d fl ids w = (Inr (), w')"
    by (simp add: transfer_funds_via_recovery)
next
  assume "length ids < 2 \<and> recovery d fl w = (Inl e, w')"
  then show "transfer_funds d fl ids w = (Inl e, w')"
    by (simp add: transfer_funds_via_recovery)
qed

theorem transfer_accounts_are_planned_witness:
  "transfer_funds (recording_driver [] []) exact_arith [''1001'', ''1002''] []
     = (Inr (),
        [Click TransferFundsLink, Fill AmountField ''1000'',
         SelectOption FromAccountSelect ''1001'', SelectOption ToAccountSelect ''1002'',
         Click TransferButton])
   \<and> transfer_funds
        (recording_driver [''activity.htm?id=1002'']
           [[''1001'', ''$5.00''], [''1002'', ''$5.00''], [''Total'', ''$10.00'']])
        exact_arith [''1001''] []
     = (Inr (),
        open_account_steps @
        [WaitForLoadState ''networkidle'', WaitForSelector AccountTableRows,
         Click TransferFundsLink, Fill AmountField ''1000'',
         SelectOption FromAccountSelect ''1001'', SelectOption ToAccountSelect ''1002'',
         Click TransferButton])
   \<and> transfer_funds
        (recording_driver [''activity.htm?id=1001''] [[''1001'', ''$5.00''], [''Total'', ''$5.00'']])
        exact_arith [''1001''] []
     = (Inr (),
        open_account_steps @ [WaitForLoadState ''networkidle'', WaitForSelector AccountTableRows])
   \<and> transfer_funds (recording_driver [] []) exact_arith [''1001''] []
     = (Inl PlainException, open_account_steps)"
proof -
  let ?two = "recording_driver [''activity.htm?id=1002'']
                [[''1001'', ''$5.00''], [''1002'', ''$5.00''], [''Total'', ''$10.00'']]"
  let ?one = "recording_driver [''activity.htm?id=1001''] [[''1001'', ''$5.00''], [''Total'', ''$5.00'']]"
  let ?none = "recording_driver [] []"
  let ?recovered = "open_account_steps @ [WaitForLoadState ''networkidle'', WaitForSelector AccountTableRows]"
  have direct:
    "submit_transfer ?none ''1001'' ''1002'' []
       = (Inr (),
          [Click TransferFundsLink, Fill AmountField ''1000'',
           SelectOption FromAccountSelect ''1001'', SelectOption ToAccountSelect ''1002'',
           Click TransferButton])"
    by code_simp
  have two: "recovery ?two exact_arith [] = (Inr [''1001'', ''1002''], ?recovered)"
    by code_simp
  have after_two:
    "submit_transfer ?two ''1001'' ''1002'' ?recovered
       = (Inr (),
          open_account_steps @
          [WaitForLoadState ''networkidle'', WaitForSelector AccountTableRows,
           Click TransferFundsLink, Fill AmountField ''1000'',
           SelectOption FromAccountSelect ''1001'', SelectOption ToAccountSelect ''1002'',
           Click TransferButton])"
    by code_simp
  have one: "recovery ?one exact_arith [] = (Inr [''1001''], ?recovered)"
    by code_simp
  have none: "recovery ?none exact_arith [] = (Inl PlainException, open_account_steps)"
    by code_simp
  from direct
    transfer_accounts_are_planned [of "[''1001'', ''1002'']" ?none exact_arith "[]"]
  have first: "transfer_funds ?none exact_arith [''1001'', ''1002''] []
     = (Inr (),
        [Click TransferFundsLink, Fill AmountField ''1000'',
         SelectOption FromAccountSelect ''1001'', SelectOption ToAccountSelect ''1002'',
         Click TransferButton])"
    by simp
  from two after_two
    transfer_accounts_are_planned
      [of "[''1001'']" ?two exact_arith "[]" "[''1001'', ''1002'']" ?recovered]
  have second: "transfer_funds ?two exact_arith [''1001''] []
     = (Inr (),
        open_account_steps @
        [WaitForLoadState ''networkidle'', WaitForSelector AccountTableRows,
         Click TransferFundsLink, Fill AmountField ''1000'',
         SelectOption FromAccountSelect ''1001'', SelectOption ToAccountSelect ''1002'',
         Click TransferButton])"
    by simp
  from one
    transfer_accounts_are_planned
      [of "[''1001'']" ?one exact_arith "[]" "[''1001'']" ?recovered]
  have third: "transfer_funds ?one exact_arith [''1001''] [] = (Inr (), ?recovered)"
    by simp
  from none
    transfer_accounts_are_planned
      [of "[''1001'']" ?none exact_arith "[]" _ open_account_steps PlainException]
  have fourth: "transfer_funds ?none exact_arith [''1001''] [] = (Inl PlainException, open_account_steps)"
    by simp
  from first second third fourth show ?thesis by simp
qed

lemma contains_occurrence: "contains sep (before_it @ sep @ rest)"
proof (induction before_it)
  case Nil
  show ?case
  proof (cases "sep @ rest")
    case Nil
    then show ?thesis by simp
  next
    case (Cons a list)
    have "prefix sep (sep @ rest)" by simp
    with Cons show ?thesis by simp
  qed
next
  case (Cons c cs)
  then show ?case by simp
qed

lemma split_from_no_occurrence:
  assumes "\<forall>i<length s. \<not> prefix sep (drop i s)"
  shows "split_from sep acc s = [rev acc @ s]"
  using assms
proof (induction s arbitrary: acc)
  case Nil
  then show ?case by simp
next
  case (Cons c cs)
  from Cons.prems have here: "\<not> prefix sep (c # cs)"
    by (metis drop0 length_greater_0_conv list.distinct(1))
  have "\<forall>i<length cs. \<not> prefix sep (drop i cs)"
  proof (intro allI impI)
    fix i assume "i < length cs"
    then have "Suc i < length (c # cs)" by simp
    with Cons.prems have "\<not> prefix sep (drop (Suc i) (c # cs))" by blast
    then show "\<not> prefix sep (drop i cs)" by simp
  qed
  with Cons.IH [of "c # acc"] here show ?case by simp
qed

lemma split_from_first_occurrence:
  assumes "sep \<noteq> []" and "\<forall>i<length s. \<not> prefix sep (drop i (s @ sep @ t))"
  shows "split_from sep acc (s @ sep @ t) = (rev acc @ s) # split_from sep [] t"
  using assms(2)
proof (induction s arbitrary: acc)
  case Nil
  from assms(1) obtain c cs where sep: "sep = c # cs" by (cases sep) auto
  then have "split_from sep acc (sep @ t) = rev acc # split_from sep [] (drop (length sep) (sep @ t))"
    by simp
  then show ?case by simp
next
  case (Cons c cs)
  from Cons.prems have here: "\<not> prefix sep (c # cs @ sep @ t)"
    by (metis append_Cons drop0 length_greater_0_conv list.distinct(1))
  have "\<forall>i<length cs. \<not> prefix sep (drop i (cs @ sep @ t))"
  proof (intro allI impI)
    fix i assume "i < length cs"
    then have "Suc i < length (c # cs)" by simp
    with Cons.prems have "\<not> prefix sep (drop (Suc i) ((c # cs) @ sep @ t))" by blast
    then show "\<not> prefix sep (drop i (cs @ sep @ t))" by simp
  qed
  with Cons.IH [of "c # acc"] here show ?case by simp
qed

text \<open>
  C8 as stated fails: \<^verbatim>\<open>split("id=")[1]\<close> is the piece between the first and the second
  \<^verbatim>\<open>id=\<close>.  On a link with two of them the result is not what follows an \<^verbatim>\<open>id=\<close> to the end
  of the link.
\<close>

theorem id_is_cut_at_the_next_separator:
  "last_account_id [''activity.htm?id=1&id=2''] = Inr ''1&''
   \<and> \<not> suffix (''id='' @ ''1&'') ''activity.htm?id=1&id=2''"
  by code_simp

text \<open>
  C8, amended.  The end of \<^verbatim>\<open>create_savings_account\<close> raises exactly when the list of links
  is empty.  Otherwise it returns the empty string when the last link holds no \<^verbatim>\<open>id=\<close>,
  and else the text between the first \<^verbatim>\<open>id=\<close> of the last link and the next \<^verbatim>\<open>id=\<close> after
  it, or the end of the link when there is none: what follows \<^verbatim>\<open>id=\<close> when it occurs once.
  The method itself gives that result whenever its interactions with the page succeed
  and the links are read.
\<close>

theorem last_account_id_result:
  "(last_account_id links = Inl PlainException \<longleftrightarrow> links = [])
   \<and> (links \<noteq> [] \<longrightarrow> (\<exists>r. last_account_id links = Inr r))
   \<and> (links \<noteq> [] \<and> \<not> contains ''id='' (last links) \<longrightarrow> last_account_id links = Inr [])
   \<and> (links \<noteq> [] \<and> last links = lead @ ''id='' @ found @ rest
        \<and> (\<forall>i<length lead. \<not> prefix ''id='' (drop i (last links)))
        \<and> (\<forall>i<length found. \<not> prefix ''id='' (drop i (found @ rest)))
        \<and> (rest = [] \<or> prefix ''id='' rest)
       \<longrightarrow> last_account_id links = Inr found)
   \<and> (perform_all d open_account_steps w = (None, w')
        \<and> href_attributes d w' = (Inr links, w'')
       \<longrightarrow> create_savings_account d w = (last_account_id links, w''))"
proof (intro conjI impI)
  show "last_account_id links = Inl PlainException \<longleftrightarrow> links = []"
    by (simp add: last_account_id_def Let_def)
  show "\<exists>r. last_account_id links = Inr r" if "links \<noteq> []"
    using that by (simp add: last_account_id_def Let_def)
  show "last_account_id links = Inr []" if "links \<noteq> [] \<and> \<not> contains ''id='' (last links)"
    using that by (simp add: last_account_id_def Let_def)
  show "create_savings_account d w = (last_account_id links, w'')"
    if "perform_all d open_account_steps w = (None, w') \<and> href_attributes d w' = (Inr links, w'')"
    using that by (simp add: create_savings_account_def)
  show "last_account_id links = Inr found"
    if h: "links \<noteq> [] \<and> last links = lead @ ''id='' @ found @ rest
        \<and> (\<forall>i<length lead. \<not> prefix ''id='' (drop i (last links)))
        \<and> (\<forall>i<length found. \<not> prefix ''id='' (drop i (found @ rest)))
        \<and> (rest = [] \<or> prefix ''id='' rest)"
  proof -
    from h have link: "last links = lead @ ''id='' @ found @ rest" by simp
    then have occurs: "contains ''id='' (last links)"
      using contains_occurrence [of "''id=''" lead "found @ rest"] by simp
    from h link have "\<forall>i<length lead. \<not> prefix ''id='' (drop i (lead @ ''id='' @ found @ rest))"
      by simp
    then have first_cut:
      "split_from ''id='' [] (lead @ ''id='' @ found @ rest)
         = lead # split_from ''id='' [] (found @ rest)"
      using split_from_first_occurrence [of "''id=''" lead "found @ rest" "[]"] by simp
    have second_piece: "\<exists>more. split_from ''id='' [] (found @ rest) = found # more"
    proof (cases "rest = []")
      case True
      with h have "\<forall>i<length found. \<not> prefix ''id='' (drop i found)" by simp
      then have "split_from ''id='' [] found = [found]"
        using split_from_no_occurrence [of found "''id=''" "[]"] by simp
      with True show ?thesis by simp
    next
      case False
      with h obtain t where t: "rest = ''id='' @ t"
        by (auto simp add: prefix_def)
      with h have "\<forall>i<length found. \<not> prefix ''id='' (drop i (found @ ''id='' @ t))" by simp
      then have "split_from ''id='' [] (found @ ''id='' @ t) = found # split_from ''id='' [] t"
        using split_from_first_occurrence [of "''id=''" found t "[]"] by simp
      with t show ?thesis by simp
    qed
    then obtain more where "split_from ''id='' [] (found @ rest) = found # more" by blast
    with first_cut link have "split (last links) ''id='' ! 1 = found"
      by (simp add: split_def)
    with h occurs show ?thesis by (simp add: last_account_id_def Let_def)
  qed
qed

theorem last_account_id_result_witness:
  "last_account_id [] = Inl PlainException
   \<and> last_account_id [''overview.htm''] = Inr []
   \<and> last_account_id [''activity.htm?id=12345'', ''activity.htm?id=13344''] = Inr ''13344''
   \<and> last_account_id [''activity.htm?id=1&id=2''] = Inr ''1&''
   \<and> create_savings_account (recording_driver [''activity.htm?id=13344''] []) []
       = (Inr ''13344'', open_account_steps)"
proof -
  let ?links = "[''activity.htm?id=12345'', ''activity.htm?id=13344'']"
  let ?d = "recording_driver [''activity.htm?id=13344''] []"
  have empty: "last_account_id [] = Inl PlainException"
    using last_account_id_result [where links = "[]" and d = ?d and w = "[]" and w' = "[]" and w'' = "[]"] by simp
  have absent: "\<not> contains ''id='' (last [''overview.htm''])"
    by code_simp
  have no_id: "last_account_id [''overview.htm''] = Inr []"
    using absent last_account_id_result [where links = "[''overview.htm'']" and d = ?d and w = "[]" and w' = "[]" and w'' = "[]"] by simp
  have lead_free:
    "\<forall>i<length ''activity.htm?''. \<not> prefix ''id='' (drop i ''activity.htm?id=13344'')"
    by (simp add: All_less_Suc)
  have found_free: "\<forall>i<length ''13344''. \<not> prefix ''id='' (drop i (''13344'' @ []))"
    by (simp add: All_less_Suc)
  have shape: "last ?links = ''activity.htm?'' @ ''id='' @ ''13344'' @ []"
    by simp
  have once: "last_account_id ?links = Inr ''13344''"
    using shape lead_free found_free
      last_account_id_result
        [where links = ?links and lead = "''activity.htm?''" and found = "''13344''" and rest = "[]"
           and d = ?d and w = "[]" and w' = "[]" and w'' = "[]"]
    by simp
  have lead_free2:
    "\<forall>i<length ''activity.htm?''. \<not> prefix ''id='' (drop i ''activity.htm?id=1&id=2'')"
    by (simp add: All_less_Suc)
  have found_free2: "\<forall>i<length ''1&''. \<not> prefix ''id='' (drop i (''1&'' @ ''id=2''))"
    by (simp add: All_less_Suc)
  have shape2: "last [''activity.htm?id=1&id=2''] = ''activity.htm?'' @ ''id='' @ ''1&'' @ ''id=2''"
    by simp
  have twice: "last_account_id [''activity.htm?id=1&id=2''] = Inr ''1&''"
    using shape2 lead_free2 found_free2
      last_account_id_result
        [where links = "[''activity.htm?id=1&id=2'']" and lead = "''activity.htm?''"
           and found = "''1&''" and rest = "''id=2''" and d = ?d and w = "[]" and w' = "[]" and w'' = "[]"]
    by simp
  have steps: "perform_all ?d open_account_steps [] = (None, open_account_steps)"
    by code_simp
  have links_read:
    "href_attributes ?d open_account_steps = (Inr [''activity.htm?id=13344''], open_account_steps)"
    by (simp add: recording_driver_def)
  have single: "last_account_id [''activity.htm?id=13344''] = Inr ''13344''"
    by code_simp
  have whole: "create_savings_account ?d [] = (Inr ''13344'', open_account_steps)"
    using steps links_read single
      last_account_id_result
        [where links = "[''activity.htm?id=13344'']" and d = ?d and w = "[]"
           and w' = open_account_steps and w'' = open_account_steps]
    by simp
  from empty no_id once twice whole show ?thesis by simp
qed

section \<open>Properties of \<^verbatim>\<open>load_demo_credentials\<close>\<close>

lemma digits_of_nonempty: "digits_of n \<noteq> []"
  by (subst digits_of.simps) simp

lemma str_int_nonempty: "str_int i \<noteq> []"
  by (simp add: str_int_def digits_of_nonempty)

lemma py_str_nonempty:
  assumes "truthy b v" and "\<forall>x. float_repr b x \<noteq> []"
  shows "py_str b v \<noteq> []"
  using assms by (cases v) (simp_all add: py_str_def str_int_nonempty)

text \<open>
  C9.  Whatever the state of the credentials file, \<^verbatim>\<open>load_demo_credentials\<close> returns and
  raises nothing, and both fields of the result are non-empty strings.  The result is the
  default pair \<^verbatim>\<open>john\<close>/\<^verbatim>\<open>demo\<close> unless the file exists, holds a JSON object and gives both
  keys a value that counts as true, in which case it is \<^verbatim>\<open>str\<close> of those two values.
  (The \<^verbatim>\<open>repr\<close> of a float is assumed to be non-empty, as it is in Python.)
\<close>

theorem load_demo_credentials_never_raises:
  assumes "\<forall>x. float_repr b x \<noteq> []"
  shows "\<exists>c. load_demo_credentials b fs = Inr c \<and> username c \<noteq> [] \<and> password c \<noteq> [] \<and>
           (c = \<lparr> username = ''john'', password = ''demo'' \<rparr> \<or>
            (\<exists>kvs u pw. path_exists fs \<and> open_and_load fs = Inr (JObject kvs) \<and>
               map_of kvs ''username'' = Some u \<and> map_of kvs ''password'' = Some pw \<and>
               truthy b u \<and> truthy b pw \<and>
               c = \<lparr> username = py_str b u, password = py_str b pw \<rparr>))"
proof (cases "try_load b fs")
  case (Inl e)
  then show ?thesis by (simp add: load_demo_credentials_def)
next
  case (Inr found)
  show ?thesis
  proof (cases found)
    case None
    with Inr show ?thesis by (simp add: load_demo_credentials_def)
  next
    case (Some c)
    with Inr have loaded: "try_load b fs = Inr (Some c)" by simp
    then have on_disk: "path_exists fs"
      by (simp add: try_load_def split: if_splits)
    from loaded on_disk obtain doc where doc: "open_and_load fs = Inr doc"
      by (cases "open_and_load fs") (simp_all add: try_load_def)
    from loaded on_disk doc obtain kvs where kvs: "doc = JObject kvs"
      by (cases doc) (simp_all add: try_load_def dict_get_def)
    define u where "u = (case map_of kvs ''username'' of None \<Rightarrow> JNull | Some v \<Rightarrow> v)"
    define pw where "pw = (case map_of kvs ''password'' of None \<Rightarrow> JNull | Some v \<Rightarrow> v)"
    from loaded on_disk doc kvs have
      tu: "truthy b u" and tpw: "truthy b pw"
      and c: "c = \<lparr> username = py_str b u, password = py_str b pw \<rparr>"
      by (simp_all add: try_load_def dict_get_def u_def pw_def split: if_splits)
    from tu have mu: "map_of kvs ''username'' = Some u"
      by (cases "map_of kvs ''username''") (simp_all add: u_def)
    from tpw have mpw: "map_of kvs ''password'' = Some pw"
      by (cases "map_of kvs ''password''") (simp_all add: pw_def)
    from tu tpw assms have ne: "py_str b u \<noteq> []" "py_str b pw \<noteq> []"
      by (simp_all add: py_str_nonempty)
    have "load_demo_credentials b fs = Inr c"
      using loaded by (simp add: load_demo_credentials_def)
    with ne c on_disk doc kvs mu mpw tu tpw show ?thesis by auto
  qed
qed

theorem load_demo_credentials_never_raises_witness:
  "load_demo_credentials plain_builtins
     \<lparr> path_exists = True,
       open_and_load = Inr (JObject [(''username'', JString ''alice''), (''password'', JInt 42)]) \<rparr>
     = Inr \<lparr> username = ''alice'', password = ''42'' \<rparr>
   \<and> load_demo_credentials plain_builtins
       \<lparr> path_exists = True, open_and_load = Inr (JObject [(''username'', JString ''alice'')]) \<rparr>
     = Inr \<lparr> username = ''john'', password = ''demo'' \<rparr>
   \<and> load_demo_credentials plain_builtins
       \<lparr> path_exists = True, open_and_load = Inr (JArray [JString ''alice'']) \<rparr>
     = Inr \<lparr> username = ''john'', password = ''demo'' \<rparr>
   \<and> load_demo_credentials plain_builtins \<lparr> path_exists = True, open_and_load = Inl ValueError \<rparr>
     = Inr \<lparr> username = ''john'', password = ''demo'' \<rparr>
   \<and> load_demo_credentials plain_builtins \<lparr> path_exists = False, open_and_load = Inl OSError \<rparr>
     = Inr \<lparr> username = ''john'', password = ''demo'' \<rparr>"
proof -
  let ?good = "\<lparr> path_exists = True,
       open_and_load = Inr (JObject [(''username'', JString ''alice''), (''password'', JInt 42)]) \<rparr>
       :: unit credentials_file"
  have repr: "\<forall>x. float_repr plain_builtins x \<noteq> []"
    by (simp add: plain_builtins_def)
  have first: "load_demo_credentials plain_builtins ?good
                 = Inr \<lparr> username = ''alice'', password = ''42'' \<rparr>"
    by code_simp
  from load_demo_credentials_never_raises [OF repr, of ?good]
  have fields:
    "\<exists>c. load_demo_credentials plain_builtins ?good = Inr c \<and> username c \<noteq> [] \<and> password c \<noteq> []"
    by blast
  have others:
    "load_demo_credentials plain_builtins
       \<lparr> path_exists = True, open_and_load = Inr (JObject [(''username'', JString ''alice'')]) \<rparr>
     = Inr \<lparr> username = ''john'', password = ''demo'' \<rparr>"
    "load_demo_credentials plain_builtins
       \<lparr> path_exists = True, open_and_load = Inr (JArray [JString ''alice'']) \<rparr>
     = Inr \<lparr> username = ''john'', password = ''demo'' \<rparr>"
    "load_demo_credentials plain_builtins \<lparr> path_exists = True, open_and_load = Inl ValueError \<rparr>
     = Inr \<lparr> username = ''john'', password = ''demo'' \<rparr>"
    "load_demo_credentials plain_builtins \<lparr> path_exists = False, open_and_load = Inl OSError \<rparr>
     = Inr \<lparr> username = ''john'', password = ''demo'' \<rparr>"
    by code_simp+
  from fields first others show ?thesis by simp
qed

end
